theory Spec2Isabelle
  imports Complex_Main "HOL-Library.Word"
begin

section \<open>JavaScript values\<close>

text \<open>
  Request bodies are parsed JSON and sheet rows are arrays of cells, so both are built from
  the primitive JavaScript values. Numbers are restricted to the integers of 64 signed bits
  (\<open>JNum w\<close> is the number \<open>sint w\<close>) and strings to 8-bit characters; objects and arrays
  do not occur as field values. All these integers are below \<open>10\<^sup>2\<^sup>1\<close> in magnitude, the
  range in which \<^verbatim>\<open>String(n)\<close> writes every digit of an integer.
\<close>

datatype jsval = JUndefined | JNull | JBool bool | JNum "64 word" | JStr string

text \<open>Truthiness, as tested by \<^verbatim>\<open>!x\<close>, \<^verbatim>\<open>x || y\<close> and \<^verbatim>\<open>if (x)\<close>.\<close>

fun truthy :: "jsval \<Rightarrow> bool" where
  "truthy JUndefined = False"
| "truthy JNull = False"
| "truthy (JBool b) = b"
| "truthy (JNum n) = (n \<noteq> 0)"
| "truthy (JStr s) = (s \<noteq> [])"

definition js_or :: "jsval \<Rightarrow> jsval \<Rightarrow> jsval" where
  "js_or a b = (if truthy a then a else b)"

function show_nat :: "nat \<Rightarrow> string" where
  "show_nat n =
     (if n < 10 then [''0123456789'' ! n]
      else show_nat (n div 10) @ [''0123456789'' ! (n mod 10)])"
  by pat_completeness auto
termination
  by (relation "measure (\<lambda>n. n)") auto

declare show_nat.simps [simp del]

text \<open>\<^verbatim>\<open>String(x)\<close>, the coercion behind template strings, \<^verbatim>\<open>RegExp.test\<close> and
  \<^verbatim>\<open>decodeURIComponent\<close>.\<close>

fun js_String :: "jsval \<Rightarrow> string" where
  "js_String JUndefined = ''undefined''"
| "js_String JNull = ''null''"
| "js_String (JBool b) = (if b then ''true'' else ''false'')"
| "js_String (JNum n) =
     (if sint n < 0 then CHR ''-'' # show_nat (nat (- sint n)) else show_nat (nat (sint n)))"
| "js_String (JStr s) = s"

type_synonym row = "jsval list"

text \<open>\<^verbatim>\<open>row[i]\<close>: reading past the end of an array gives \<^verbatim>\<open>undefined\<close>.\<close>

definition cell :: "row \<Rightarrow> nat \<Rightarrow> jsval" where
  "cell r i = (if i < length r then r ! i else JUndefined)"

text \<open>\<^verbatim>\<open>row[i] = v\<close>: writing past the end extends the array with holes.\<close>

definition js_array_set :: "row \<Rightarrow> nat \<Rightarrow> jsval \<Rightarrow> row" where
  "js_array_set r i v =
     (if i < length r then r[i := v] else r @ replicate (i - length r) JUndefined @ [v])"

text \<open>\<^verbatim>\<open>xs.findIndex(p)\<close>, with \<open>None\<close> for \<^verbatim>\<open>-1\<close>.\<close>

fun findIndex :: "('a \<Rightarrow> bool) \<Rightarrow> 'a list \<Rightarrow> nat option" where
  "findIndex p [] = None"
| "findIndex p (x # xs) =
     (if p x then Some 0 else (case findIndex p xs of None \<Rightarrow> None | Some i \<Rightarrow> Some (Suc i)))"

text \<open>\<^verbatim>\<open>xs.slice(1)\<close>.\<close>

definition slice1 :: "'a list \<Rightarrow> 'a list" where
  "slice1 xs = drop 1 xs"

subsection \<open>The two regular expressions of the registration endpoint\<close>

text \<open>\<^verbatim>\<open>\s\<close> and \<^verbatim>\<open>\d\<close> on 8-bit characters.\<close>

definition is_space :: "char \<Rightarrow> bool" where
  "is_space c = (c \<in> set [CHR 0x09, CHR 0x0A, CHR 0x0B, CHR 0x0C, CHR 0x0D, CHR 0x20, CHR 0xA0])"

definition is_digit :: "char \<Rightarrow> bool" where
  "is_digit c = (c \<in> set ''0123456789'')"

definition plain :: "char \<Rightarrow> bool" where
  \<comment> \<open>the class \<^verbatim>\<open>[^\s@]\<close>\<close>
  "plain c = (\<not> is_space c \<and> c \<noteq> CHR ''@'')"

text \<open>
  \<^verbatim>\<open>/^[^\s@]+@[^\s@]+\.[^\s@]+$/\<close>: the first class cannot cross an \<^verbatim>\<open>@\<close>, so the local part
  is the longest plain prefix; what follows the \<^verbatim>\<open>@\<close> is plain throughout and has a dot that
  is neither its first nor its last character.
\<close>

definition emailRegex_test :: "string \<Rightarrow> bool" where
  "emailRegex_test s =
     (let lpart = takeWhile plain s; rest = dropWhile plain s
      in lpart \<noteq> [] \<and>
         (case rest of
            [] \<Rightarrow> False
          | c # dpart \<Rightarrow>
              c = CHR ''@'' \<and> list_all plain dpart \<and> CHR ''.'' \<in> set (butlast (drop 1 dpart))))"

text \<open>\<^verbatim>\<open>/^\d{10,15}$/\<close>\<close>

definition phoneRegex_test :: "string \<Rightarrow> bool" where
  "phoneRegex_test s = (10 \<le> length s \<and> length s \<le> 15 \<and> list_all is_digit s)"

section \<open>The spreadsheet store\<close>

text \<open>
  A sheet has its rows (what \<^verbatim>\<open>getSheetData\<close> reads) and its named event tables (what
  \<^verbatim>\<open>getTableData\<close> reads and \<^verbatim>\<open>addToTable\<close> extends); the store maps sheet names to sheets.
\<close>

record sheet =
  srows :: "row list"
  stables :: "string \<rightharpoonup> row list"

type_synonym store = "string \<rightharpoonup> sheet"

datatype sheets_error = SheetsError

text \<open>Modelled from the spec: \<^verbatim>\<open>getSheetData\<close> of \<^verbatim>\<open>@/lib/sheets\<close>, which is not among the
  sources. It reads the rows of a sheet and throws when the sheet does not exist.\<close>

definition getSheetData :: "store \<Rightarrow> string \<Rightarrow> sheets_error + row list" where
  "getSheetData st nm = (case st nm of None \<Rightarrow> Inl SheetsError | Some sh \<Rightarrow> Inr (srows sh))"

text \<open>Modelled from the spec: \<^verbatim>\<open>getTableData\<close> of \<^verbatim>\<open>@/lib/sheets\<close>. It reads the rows of an
  event's table (header row first) and throws when the sheet or the table does not exist.\<close>

definition getTableData :: "store \<Rightarrow> string \<Rightarrow> string \<Rightarrow> sheets_error + row list" where
  "getTableData st nm ev =
     (case st nm of
        None \<Rightarrow> Inl SheetsError
      | Some sh \<Rightarrow> (case stables sh ev of None \<Rightarrow> Inl SheetsError | Some t \<Rightarrow> Inr t))"

text \<open>Modelled from the spec: \<^verbatim>\<open>addToTable\<close> of \<^verbatim>\<open>@/lib/sheets\<close>. It appends one row to an
  event's table and throws, writing nothing, when the sheet or the table does not exist.\<close>

definition addToTable :: "store \<Rightarrow> string \<Rightarrow> string \<Rightarrow> row \<Rightarrow> sheets_error + store" where
  "addToTable st nm ev r =
     (case st nm of
        None \<Rightarrow> Inl SheetsError
      | Some sh \<Rightarrow>
          (case stables sh ev of
             None \<Rightarrow> Inl SheetsError
           | Some t \<Rightarrow> Inr (st(nm \<mapsto> sh\<lparr>stables := (stables sh)(ev \<mapsto> t @ [r])\<rparr>))))"

text \<open>Modelled from the spec: \<^verbatim>\<open>appendToSheet\<close> of \<^verbatim>\<open>@/lib/sheets\<close>. It appends rows to a
  sheet and throws when the sheet does not exist.\<close>

definition appendToSheet :: "store \<Rightarrow> string \<Rightarrow> row list \<Rightarrow> sheets_error + store" where
  "appendToSheet st nm rs =
     (case st nm of
        None \<Rightarrow> Inl SheetsError
      | Some sh \<Rightarrow> Inr (st(nm \<mapsto> sh\<lparr>srows := srows sh @ rs\<rparr>)))"

text \<open>Modelled from the spec: \<^verbatim>\<open>createSheet\<close> of \<^verbatim>\<open>@/lib/sheets\<close>. It adds an empty sheet and
  throws when a sheet of that name exists.\<close>

definition createSheet :: "store \<Rightarrow> string \<Rightarrow> sheets_error + store" where
  "createSheet st nm =
     (case st nm of
        Some sh \<Rightarrow> Inl SheetsError
      | None \<Rightarrow> Inr (st(nm \<mapsto> \<lparr>srows = [], stables = Map.empty\<rparr>)))"

text \<open>Modelled from the spec: \<^verbatim>\<open>updateRow\<close> of \<^verbatim>\<open>@/lib/sheets\<close>, the row-index-based update.
  The index counts the rows that \<^verbatim>\<open>getSheetData\<close> returns from 0, the header row being row 0;
  it throws when the sheet does not exist or has no such row.\<close>

definition updateRow :: "store \<Rightarrow> string \<Rightarrow> nat \<Rightarrow> row \<Rightarrow> sheets_error + store" where
  "updateRow st nm i r =
     (case st nm of
        None \<Rightarrow> Inl SheetsError
      | Some sh \<Rightarrow>
          if i < length (srows sh) then Inr (st(nm \<mapsto> sh\<lparr>srows := (srows sh)[i := r]\<rparr>))
          else Inl SheetsError)"

text \<open>Modelled from the spec: \<^verbatim>\<open>renameSheet\<close> of \<^verbatim>\<open>@/lib/sheets\<close>. The sheet, with its rows
  and tables, moves to the new name; it throws when there is no sheet of the old name or the new
  name is taken.\<close>

definition renameSheet :: "store \<Rightarrow> string \<Rightarrow> string \<Rightarrow> sheets_error + store" where
  "renameSheet st old new =
     (case st old of
        None \<Rightarrow> Inl SheetsError
      | Some sh \<Rightarrow>
          (case st new of
             Some other \<Rightarrow> Inl SheetsError
           | None \<Rightarrow> Inr ((st(old := None))(new \<mapsto> sh))))"

section \<open>The runtime\<close>

text \<open>
  What a request handler obtains from outside the repository: the session, the clock, the
  library functions and the image host. A theorem that quantifies over the runtime holds
  whatever these return.
\<close>

record session =
  user_type :: string

record upload_result =
  success :: bool
  url :: jsval

record runtime =
  getServerSession :: "session option"
  decodeURIComponent :: "string \<Rightarrow> string option"
    \<comment> \<open>\<open>None\<close> where it throws \<^verbatim>\<open>URIError\<close>\<close>
  Number :: "jsval \<Rightarrow> real option"
    \<comment> \<open>\<open>None\<close> for \<^verbatim>\<open>NaN\<close>, and for an infinite value, which the age check refuses
        like \<^verbatim>\<open>NaN\<close>\<close>
  toISOString :: string
    \<comment> \<open>\<^verbatim>\<open>new Date().toISOString()\<close>\<close>
  Date_now :: "nat \<Rightarrow> nat"
    \<comment> \<open>the k-th reading of \<^verbatim>\<open>Date.now()\<close> within the request, a count of milliseconds\<close>
  bcrypt_hash :: "jsval \<Rightarrow> string option"
    \<comment> \<open>\<^verbatim>\<open>bcrypt.hash(password, 10)\<close>; \<open>None\<close> where it throws\<close>
  uploadImage :: "string \<Rightarrow> jsval \<Rightarrow> string \<Rightarrow> upload_result option"
    \<comment> \<open>\<^verbatim>\<open>uploadImage\<close> of \<^verbatim>\<open>@/lib/github\<close>; \<open>None\<close> where it throws\<close>

section \<open>Responses\<close>

record company =
  c_id :: jsval
  c_name :: jsval
  c_username :: jsval
  c_image :: jsval
  c_status :: jsval
  c_deleted :: bool

datatype payload =
    Error string
  | Registration jsval jsval string
      \<comment> \<open>\<^verbatim>\<open>{success, message, registration: {name, email, registrationDate}}\<close>\<close>
  | Companies "company list"
  | Company company
  | Message string

record response =
  status :: nat
  body :: payload

definition json :: "payload \<Rightarrow> nat \<Rightarrow> response" where
  "json p s = \<lparr>status = s, body = p\<rparr>"

definition ok :: "payload \<Rightarrow> response" where
  \<comment> \<open>\<^verbatim>\<open>NextResponse.json(x)\<close> without a status\<close>
  "ok p = json p 200"

section \<open>The registration endpoint\<close>

text \<open>
  The members of the JSON body that the handlers destructure. A member the body lacks is
  \<open>JUndefined\<close>. The handler of \<^verbatim>\<open>register/route.ts\<close> reads the phone number from
  \<^verbatim>\<open>whatsappNumber\<close>, the older handler from \<^verbatim>\<open>whatsapp\<close>.
\<close>

record register_body =
  companyName :: jsval
  eventName :: jsval
  name :: jsval
  whatsappNumber :: jsval
  whatsapp :: jsval
  nationalId :: jsval
  email :: jsval
  education :: jsval
  universityCollege :: jsval
  age :: jsval
  gender :: jsval

definition quoted :: "string \<Rightarrow> string" where
  "quoted s = [CHR 0x22] @ s @ [CHR 0x22]"

text \<open>
  "Validate required fields": \<^verbatim>\<open>!companyName || !eventName || !name || !whatsappNumber ||
  !nationalId || !email || !education || !universityCollege || !age || !gender\<close>, where
  \<^verbatim>\<open>companyName\<close> is the decoded string; and the same test of the older handler, on
  \<^verbatim>\<open>whatsapp\<close>.
\<close>

definition fields_missing :: "string \<Rightarrow> register_body \<Rightarrow> bool" where
  "fields_missing cn b =
     (cn = [] \<or> \<not> truthy (eventName b) \<or> \<not> truthy (name b) \<or> \<not> truthy (whatsappNumber b) \<or>
      \<not> truthy (nationalId b) \<or> \<not> truthy (email b) \<or> \<not> truthy (education b) \<or>
      \<not> truthy (universityCollege b) \<or> \<not> truthy (age b) \<or> \<not> truthy (gender b))"

definition fields_missing_part_001 :: "string \<Rightarrow> register_body \<Rightarrow> bool" where
  "fields_missing_part_001 cn b =
     (cn = [] \<or> \<not> truthy (eventName b) \<or> \<not> truthy (name b) \<or> \<not> truthy (whatsapp b) \<or>
      \<not> truthy (email b) \<or> \<not> truthy (gender b) \<or> \<not> truthy (education b) \<or>
      \<not> truthy (universityCollege b) \<or> \<not> truthy (age b) \<or> \<not> truthy (nationalId b))"

text \<open>
  The check "is the event disabled", the same in both handlers: with \<^verbatim>\<open>headers = tableData[0]\<close>
  and \<^verbatim>\<open>statusIndex = headers.findIndex(h => h === 'EventStatus')\<close>, the condition
  \<^verbatim>\<open>statusIndex !== -1 && tableData.length > 1 && tableData[1][statusIndex] === 'disabled'\<close>.
  It is evaluated only on a table that has a header row.
\<close>

definition event_disabled :: "row list \<Rightarrow> bool" where
  "event_disabled tableData =
     (let headers = hd tableData;
          statusIndex = findIndex (\<lambda>h. h = JStr ''EventStatus'') headers
      in case statusIndex of
           None \<Rightarrow> False
         | Some i \<Rightarrow> length tableData > 1 \<and> cell (tableData ! 1) i = JStr ''disabled'')"

text \<open>
  The predicate that \<^verbatim>\<open>register/route.ts\<close> hands to \<^verbatim>\<open>registrationData.find\<close>:
  \<^verbatim>\<open>(emailIndex !== -1 && row[emailIndex] === email) ||
  (whatsappIndex !== -1 && row[whatsappIndex] === whatsappNumber)\<close>, the two indices found in the
  header row by the column titles.
\<close>

definition same_person :: "row \<Rightarrow> jsval \<Rightarrow> jsval \<Rightarrow> row \<Rightarrow> bool" where
  "same_person headers em wa r =
     (let emailIndex = findIndex (\<lambda>h. h = JStr ''Email'') headers;
          whatsappIndex = findIndex (\<lambda>h. h = JStr ''WhatsApp Number'') headers
      in (case emailIndex of None \<Rightarrow> False | Some i \<Rightarrow> cell r i = em) \<or>
         (case whatsappIndex of None \<Rightarrow> False | Some i \<Rightarrow> cell r i = wa))"

text \<open>The predicate of the older handler: \<^verbatim>\<open>row[2] === email || row[1] === whatsapp\<close>.\<close>

definition same_person_part_001 :: "jsval \<Rightarrow> jsval \<Rightarrow> row \<Rightarrow> bool" where
  "same_person_part_001 em wa r = (cell r 2 = em \<or> cell r 1 = wa)"

text \<open>
  \<^verbatim>\<open>POST\<close> of \<^verbatim>\<open>src/app/api/events/register/route.ts\<close>. The request is \<open>None\<close> when
  \<^verbatim>\<open>request.json()\<close> throws. Every \<^verbatim>\<open>return\<close> of the source is a branch here, in the source's
  order; the two inner \<^verbatim>\<open>catch\<close> blocks that answer 500 "Failed to verify event" and "Failed to
  verify company" guard code in which nothing of this model throws.
\<close>

definition register_POST :: "runtime \<Rightarrow> register_body option \<Rightarrow> store \<Rightarrow> response \<times> store" where
  "register_POST rt request st =
     (case request of
        None \<Rightarrow> (json (Error ''Failed to register for event'') 500, st)
      | Some b \<Rightarrow>
     (case decodeURIComponent rt (js_String (companyName b)) of
        None \<Rightarrow> (json (Error ''Failed to register for event'') 500, st)
      | Some cn \<Rightarrow>
     if fields_missing cn b
     then (json (Error ''All fields are required'') 400, st)
     else if \<not> emailRegex_test (js_String (email b))
     then (json (Error ''Invalid email format'') 400, st)
     else if \<not> phoneRegex_test (js_String (whatsappNumber b))
     then (json (Error ''Invalid WhatsApp number format'') 400, st)
     else
     (case getSheetData st cn of
        Inl e \<Rightarrow> (json (Error (''Company '' @ quoted cn @ '' not found or inaccessible'')) 404, st)
      | Inr sheetData \<Rightarrow>
     if sheetData = [] then (json (Error ''Company not found'') 404, st)
     else
     (case getSheetData st ''companies'' of
        Inl e \<Rightarrow> (json (Error ''Failed to verify company status'') 500, st)
      | Inr companiesData \<Rightarrow>
     (case find (\<lambda>row. cell row 1 = JStr cn) (slice1 companiesData) of
        None \<Rightarrow> (json (Error ''Company not found in the system'') 404, st)
      | Some company \<Rightarrow>
     if js_or (cell company 5) (JStr ''enabled'') = JStr ''disabled''
     then (json (Error ''Company is disabled, registration is not available'') 403, st)
     else
     (case getTableData st cn (js_String (eventName b)) of
        Inl e \<Rightarrow>
          (json (Error (''Event '' @ quoted (js_String (eventName b)) @ '' not found or inaccessible'')) 404,
           st)
      | Inr tableData \<Rightarrow>
     if tableData = [] then (json (Error ''Event not found'') 404, st)
     else if event_disabled tableData
     then (json (Error ''Event registration is currently disabled'') 403, st)
     else
       let registrationData = slice1 tableData;
           existingRegistration =
             find (same_person (hd tableData) (email b) (whatsappNumber b)) registrationData
       in
     if existingRegistration \<noteq> None
     then (json (Error ''You are already registered for this event'') 400, st)
     else
       let registrationDate = toISOString rt in
     (case addToTable st cn (js_String (eventName b))
             [name b, whatsappNumber b, nationalId b, email b, education b, universityCollege b,
              age b, gender b, JStr registrationDate] of
        Inl e \<Rightarrow> (json (Error ''Failed to complete registration'') 500, st)
      | Inr st' \<Rightarrow> (ok (Registration (name b) (email b) registrationDate), st'))))))))"

text \<open>
  \<^verbatim>\<open>POST\<close> of the older registration handler (\<^verbatim>\<open>src/unnamed/part_001\<close>). It validates the
  age, lets a company without a row in the companies table through, and looks for a duplicate in
  fixed columns: \<^verbatim>\<open>row[2] === email || row[1] === whatsapp\<close>. Its \<^verbatim>\<open>catch\<close> blocks answer 404
  where a collaborator throws. (A third copy of the handler, kept beside the test route,
  looks for a duplicate as \<^verbatim>\<open>register/route.ts\<close> does and is otherwise as this one, without
  the age validation; it is not modelled.)
\<close>

definition age_invalid :: "runtime \<Rightarrow> jsval \<Rightarrow> bool" where
  \<comment> \<open>\<^verbatim>\<open>isNaN(Number(age)) || Number(age) < 15 || Number(age) > 100\<close>\<close>
  "age_invalid rt a = (case Number rt a of None \<Rightarrow> True | Some n \<Rightarrow> n < 15 \<or> n > 100)"

definition register_POST_part_001 ::
  "runtime \<Rightarrow> register_body option \<Rightarrow> store \<Rightarrow> response \<times> store" where
  "register_POST_part_001 rt request st =
     (case request of
        None \<Rightarrow> (json (Error ''Failed to register for event'') 500, st)
      | Some b \<Rightarrow>
     (case decodeURIComponent rt (js_String (companyName b)) of
        None \<Rightarrow> (json (Error ''Failed to register for event'') 500, st)
      | Some cn \<Rightarrow>
     if fields_missing_part_001 cn b
     then (json (Error ''All fields are required'') 400, st)
     else if \<not> emailRegex_test (js_String (email b))
     then (json (Error ''Invalid email format'') 400, st)
     else if \<not> phoneRegex_test (js_String (whatsapp b))
     then (json (Error ''Invalid WhatsApp number format'') 400, st)
     else if age_invalid rt (age b)
     then (json (Error ''Please enter a valid age between 15 and 100'') 400, st)
     else
     (case getSheetData st cn of
        Inl e \<Rightarrow> (json (Error ''Company not found'') 404, st)
      | Inr sheetData \<Rightarrow>
     if sheetData = [] then (json (Error ''Company not found'') 404, st)
     else
     (case getSheetData st ''companies'' of
        Inl e \<Rightarrow> (json (Error ''Company not found'') 404, st)
      | Inr companiesData \<Rightarrow>
     if (case find (\<lambda>row. cell row 1 = JStr cn) (slice1 companiesData) of
           None \<Rightarrow> False
         | Some company \<Rightarrow> js_or (cell company 5) (JStr ''enabled'') = JStr ''disabled'')
     then (json (Error ''Company is disabled, registration is not available'') 403, st)
     else
     (case getTableData st cn (js_String (eventName b)) of
        Inl e \<Rightarrow> (json (Error ''Event not found'') 404, st)
      | Inr tableData \<Rightarrow>
     if tableData = [] then (json (Error ''Event not found'') 404, st)
     else if event_disabled tableData
     then (json (Error ''Event registration is currently disabled'') 403, st)
     else
       let registrationData = slice1 tableData;
           existingRegistration =
             find (same_person_part_001 (email b) (whatsapp b)) registrationData
       in
     if existingRegistration \<noteq> None
     then (json (Error ''You are already registered for this event'') 400, st)
     else
       let registrationDate = toISOString rt in
     (case addToTable st cn (js_String (eventName b))
             [name b, whatsapp b, nationalId b, email b, education b, universityCollege b,
              age b, gender b, JStr registrationDate] of
        Inl e \<Rightarrow> (json (Error ''Event not found'') 404, st)
      | Inr st' \<Rightarrow> (ok (Registration (name b) (email b) registrationDate), st')))))))"

section \<open>The companies endpoint\<close>

text \<open>\<^verbatim>\<open>src/app/api/companies/route.ts\<close>. A row of the companies sheet is
  \<^verbatim>\<open>[id, name, username, password, image, status, deleted]\<close>.\<close>

definition unauthorized :: "runtime \<Rightarrow> bool" where
  \<comment> \<open>\<^verbatim>\<open>!session || session.user.type !== 'admin'\<close>\<close>
  "unauthorized rt =
     (case getServerSession rt of None \<Rightarrow> True | Some s \<Rightarrow> user_type s \<noteq> ''admin'')"

text \<open>The object that \<^verbatim>\<open>GET\<close> makes of a row.\<close>

definition company_of_row :: "row \<Rightarrow> company" where
  "company_of_row r =
     \<lparr>c_id = cell r 0, c_name = cell r 1, c_username = cell r 2,
      c_image = js_or (cell r 4) JNull,
      c_status = js_or (cell r 5) (JStr ''enabled''),
      c_deleted = (if cell r 6 = JStr ''true'' then True else False)\<rparr>"

definition companies_GET :: "runtime \<Rightarrow> store \<Rightarrow> response" where
  "companies_GET rt st =
     (if unauthorized rt then json (Error ''Unauthorized'') 401
      else
        (case getSheetData st ''companies'' of
           Inl e \<Rightarrow> json (Error ''Failed to get companies'') 500
         | Inr data \<Rightarrow> ok (Companies (map company_of_row (slice1 data)))))"

text \<open>The list that the admin dashboard (\<^verbatim>\<open>src/app/control_admin/page.tsx\<close>) shows of the
  fetched companies: \<^verbatim>\<open>companies.filter(company => showDeleted ? company.deleted :
  !company.deleted)\<close>, with \<^verbatim>\<open>showDeleted\<close> initially \<^verbatim>\<open>false\<close>.\<close>

definition shown_companies :: "bool \<Rightarrow> company list \<Rightarrow> company list" where
  "shown_companies showDeleted cs =
     filter (\<lambda>c. if showDeleted then c_deleted c else \<not> c_deleted c) cs"

text \<open>The members of the JSON body that \<^verbatim>\<open>POST\<close> and \<^verbatim>\<open>PUT\<close> destructure.\<close>

record company_body =
  req_id :: jsval
  req_name :: jsval
  req_username :: jsval
  req_password :: jsval
  req_image :: jsval
  req_status :: jsval
  req_deleted :: jsval

definition companies_header :: row where
  "companies_header =
     [JStr ''ID'', JStr ''Name'', JStr ''Username'', JStr ''Password'', JStr ''Image'',
      JStr ''Status'', JStr ''Deleted'']"

text \<open>
  "Upload image if provided", the same block in \<^verbatim>\<open>POST\<close> and \<^verbatim>\<open>PUT\<close>: \<^verbatim>\<open>imageUrl\<close> starts
  as \<^verbatim>\<open>null\<close> (in \<^verbatim>\<open>PUT\<close>, as the current image) and becomes the uploaded URL only when an
  image is given and \<^verbatim>\<open>uploadResult.success\<close> holds. \<open>None\<close> where \<^verbatim>\<open>uploadImage\<close> throws.
\<close>

definition imageUrl :: "runtime \<Rightarrow> string \<Rightarrow> jsval \<Rightarrow> jsval \<Rightarrow> jsval option" where
  "imageUrl rt fileName img initial =
     (if truthy img
      then (case uploadImage rt fileName img ''companies'' of
              None \<Rightarrow> None
            | Some uploadResult \<Rightarrow> Some (if success uploadResult then url uploadResult else initial))
      else Some initial)"

text \<open>
  \<^verbatim>\<open>POST\<close>. An exception of a collaborator is caught by the handler's single \<^verbatim>\<open>catch\<close>, which
  answers 500; what was written before the exception stays written. The first block, "check if
  the companies sheet exists, if not create it", is \<open>ensure_companies_sheet\<close>.
\<close>

definition ensure_companies_sheet :: "store \<Rightarrow> sheets_error + store" where
  "ensure_companies_sheet st =
     (case getSheetData st ''companies'' of
        Inr d \<Rightarrow> Inr st
      | Inl e \<Rightarrow>
          (case createSheet st ''companies'' of
             Inl e' \<Rightarrow> Inl e'
           | Inr st1 \<Rightarrow> appendToSheet st1 ''companies'' [companies_header]))"

definition companies_POST :: "runtime \<Rightarrow> company_body option \<Rightarrow> store \<Rightarrow> response \<times> store" where
  "companies_POST rt request st =
     (if unauthorized rt then (json (Error ''Unauthorized'') 401, st)
      else
     (case request of
        None \<Rightarrow> (json (Error ''Failed to create company'') 500, st)
      | Some b \<Rightarrow>
     if \<not> truthy (req_name b) \<or> \<not> truthy (req_username b) \<or> \<not> truthy (req_password b)
     then (json (Error ''Name, username, and password are required'') 400, st)
     else
     (case ensure_companies_sheet st of
        Inl e \<Rightarrow> (json (Error ''Failed to create company'') 500, st)
      | Inr st1 \<Rightarrow>
     (case getSheetData st1 ''companies'' of
        Inl e \<Rightarrow> (json (Error ''Failed to create company'') 500, st1)
      | Inr existingData \<Rightarrow>
     if list_ex (\<lambda>row. cell row 2 = req_username b) (slice1 existingData)
     then (json (Error ''Username already exists'') 400, st1)
     else
       let ident = ''company_'' @ show_nat (Date_now rt 0) in
     (case bcrypt_hash rt (req_password b) of
        None \<Rightarrow> (json (Error ''Failed to create company'') 500, st1)
      | Some hashedPassword \<Rightarrow>
     (case imageUrl rt (''company_'' @ ident @ ''_'' @ show_nat (Date_now rt 1) @ ''.jpg'')
             (req_image b) JNull of
        None \<Rightarrow> (json (Error ''Failed to create company'') 500, st1)
      | Some img \<Rightarrow>
     (case appendToSheet st1 ''companies''
             [[JStr ident, req_name b, req_username b, JStr hashedPassword, img,
               JStr ''enabled'', JStr ''false'']] of
        Inl e \<Rightarrow> (json (Error ''Failed to create company'') 500, st1)
      | Inr st2 \<Rightarrow>
     (case createSheet st2 (js_String (req_name b)) of
        Inl e \<Rightarrow> (json (Error ''Failed to create company'') 500, st2)
      | Inr st3 \<Rightarrow>
          (ok (Company \<lparr>c_id = JStr ident, c_name = req_name b, c_username = req_username b,
                        c_image = img, c_status = JStr ''enabled'', c_deleted = False\<rparr>),
           st3)))))))))"

text \<open>
  \<^verbatim>\<open>PUT\<close>. \<open>username_taken\<close> is
  \<^verbatim>\<open>companies.some((row, index) => index !== companyIndex && row[2] === username)\<close>, and
  \<open>new_deleted\<close> is the value written for the deleted flag.
\<close>

definition username_taken :: "row list \<Rightarrow> nat \<Rightarrow> jsval \<Rightarrow> bool" where
  "username_taken companies companyIndex username =
     list_ex (\<lambda>(index, row). index \<noteq> companyIndex \<and> cell row 2 = username)
       (zip [0..<length companies] companies)"

definition currentDeleted :: "row \<Rightarrow> bool" where
  \<comment> \<open>\<^verbatim>\<open>currentCompany[6] === 'true' ? true : false\<close>\<close>
  "currentDeleted r = (if cell r 6 = JStr ''true'' then True else False)"

definition new_deleted :: "jsval \<Rightarrow> row \<Rightarrow> bool" where
  \<comment> \<open>\<^verbatim>\<open>typeof deleted === 'boolean' ? deleted : currentDeleted\<close>\<close>
  "new_deleted d r = (case d of JBool v \<Rightarrow> v | _ \<Rightarrow> currentDeleted r)"

text \<open>"Hash the password if it's being updated"; \<open>None\<close> where \<^verbatim>\<open>bcrypt.hash\<close> throws.\<close>

definition hashedPassword :: "runtime \<Rightarrow> jsval \<Rightarrow> jsval \<Rightarrow> jsval option" where
  "hashedPassword rt password currentPassword =
     (if truthy password then map_option JStr (bcrypt_hash rt password)
      else Some currentPassword)"

text \<open>The row that \<^verbatim>\<open>PUT\<close> writes and the company it reports, from the request, the stored row
  and the two values above.\<close>

definition updatedCompany :: "company_body \<Rightarrow> row \<Rightarrow> jsval \<Rightarrow> jsval \<Rightarrow> row" where
  "updatedCompany b currentCompany password img =
     (let currentName = cell currentCompany 1;
          currentUsername = cell currentCompany 2;
          currentStatus = js_or (cell currentCompany 5) (JStr ''enabled'')
      in [req_id b, js_or (req_name b) currentName, js_or (req_username b) currentUsername,
          password, img, js_or (req_status b) currentStatus,
          JStr (if new_deleted (req_deleted b) currentCompany then ''true'' else ''false'')])"

definition updated_response :: "company_body \<Rightarrow> row \<Rightarrow> jsval \<Rightarrow> response" where
  "updated_response b currentCompany img =
     (let currentName = cell currentCompany 1;
          currentUsername = cell currentCompany 2;
          currentStatus = js_or (cell currentCompany 5) (JStr ''enabled'')
      in ok (Company \<lparr>c_id = req_id b, c_name = js_or (req_name b) currentName,
                        c_username = js_or (req_username b) currentUsername,
                        c_image = img, c_status = js_or (req_status b) currentStatus,
                        c_deleted = new_deleted (req_deleted b) currentCompany\<rparr>))"


text \<open>\<^verbatim>\<open>DELETE\<close>. The request is the \<^verbatim>\<open>id\<close> query parameter, \<open>None\<close> when the URL has none.\<close>

definition companies_DELETE :: "runtime \<Rightarrow> string option \<Rightarrow> store \<Rightarrow> response \<times> store" where
  "companies_DELETE rt request st =
     (if unauthorized rt then (json (Error ''Unauthorized'') 401, st)
      else
     (case request of
        None \<Rightarrow> (json (Error ''Company ID is required'') 400, st)
      | Some ident \<Rightarrow>
     if ident = [] then (json (Error ''Company ID is required'') 400, st)
     else
     (case getSheetData st ''companies'' of
        Inl e \<Rightarrow> (json (Error ''Failed to mark company as deleted'') 500, st)
      | Inr data \<Rightarrow>
       let companies = slice1 data in
     (case findIndex (\<lambda>row. cell row 0 = JStr ident) companies of
        None \<Rightarrow> (json (Error ''Company not found'') 404, st)
      | Some companyIndex \<Rightarrow>
       let companyName = js_String (cell (companies ! companyIndex) 1);
           updatedCompany = js_array_set (companies ! companyIndex) 6 (JStr ''true'')
       in
     (case updateRow st ''companies'' (companyIndex + 1) updatedCompany of
        Inl e \<Rightarrow> (json (Error ''Failed to mark company as deleted'') 500, st)
      | Inr st1 \<Rightarrow>
     (case renameSheet st1 companyName (companyName @ ''-deleted'') of
        Inl e \<Rightarrow> (json (Error ''Failed to mark company as deleted'') 500, st1)
      | Inr st2 \<Rightarrow>
          (ok (Message (''Company '' @ companyName @ '' marked as deleted successfully'')), st2)))))))"

section \<open>Properties of the registration endpoint\<close>

text \<open>
  A request reaches the duplicate check of \<^verbatim>\<open>register/route.ts\<close> when none of the earlier
  \<^verbatim>\<open>return\<close>s fires: the body parses and the company name decodes, no field is missing, email
  and phone match their patterns, the company's sheet can be read and has rows, the companies
  sheet can be read and its first row of that name is not disabled, and the event's table can be
  read, has a header row and is not disabled.
\<close>

definition company_enabled :: "store \<Rightarrow> string \<Rightarrow> bool" where
  "company_enabled st cn =
     (case getSheetData st ''companies'' of
        Inl e \<Rightarrow> False
      | Inr companiesData \<Rightarrow>
          (case find (\<lambda>row. cell row 1 = JStr cn) (slice1 companiesData) of
             None \<Rightarrow> False
           | Some company \<Rightarrow> js_or (cell company 5) (JStr ''enabled'') \<noteq> JStr ''disabled''))"

definition has_rows :: "store \<Rightarrow> string \<Rightarrow> bool" where
  "has_rows st cn = (case getSheetData st cn of Inl e \<Rightarrow> False | Inr sheetData \<Rightarrow> sheetData \<noteq> [])"

definition passes_checks ::
  "runtime \<Rightarrow> register_body option \<Rightarrow> store \<Rightarrow> register_body \<Rightarrow> string \<Rightarrow> row list \<Rightarrow> bool" where
  "passes_checks rt request st b cn tableData =
     (request = Some b \<and> decodeURIComponent rt (js_String (companyName b)) = Some cn \<and>
      \<not> fields_missing cn b \<and> emailRegex_test (js_String (email b)) \<and>
      phoneRegex_test (js_String (whatsappNumber b)) \<and>
      has_rows st cn \<and> company_enabled st cn \<and>
      getTableData st cn (js_String (eventName b)) = Inr tableData \<and> tableData \<noteq> [] \<and>
      \<not> event_disabled tableData)"

text \<open>
  The same for the older handler, which also validates the age and which lets a company pass
  that has no row in the companies sheet.
\<close>

definition company_not_disabled :: "store \<Rightarrow> string \<Rightarrow> bool" where
  "company_not_disabled st cn =
     (case getSheetData st ''companies'' of
        Inl e \<Rightarrow> False
      | Inr companiesData \<Rightarrow>
          (case find (\<lambda>row. cell row 1 = JStr cn) (slice1 companiesData) of
             None \<Rightarrow> True
           | Some company \<Rightarrow> js_or (cell company 5) (JStr ''enabled'') \<noteq> JStr ''disabled''))"

definition passes_checks_part_001 ::
  "runtime \<Rightarrow> register_body option \<Rightarrow> store \<Rightarrow> register_body \<Rightarrow> string \<Rightarrow> row list \<Rightarrow> bool" where
  "passes_checks_part_001 rt request st b cn tableData =
     (request = Some b \<and> decodeURIComponent rt (js_String (companyName b)) = Some cn \<and>
      \<not> fields_missing_part_001 cn b \<and> emailRegex_test (js_String (email b)) \<and>
      phoneRegex_test (js_String (whatsapp b)) \<and> \<not> age_invalid rt (age b) \<and>
      has_rows st cn \<and> company_not_disabled st cn \<and>
      getTableData st cn (js_String (eventName b)) = Inr tableData \<and> tableData \<noteq> [] \<and>
      \<not> event_disabled tableData)"

section \<open>Example data\<close>

text \<open>
  A runtime, a store with one company (Acme) and one event (Launch), and registration
  requests, on which the theorems below are instantiated.
\<close>

definition example_runtime :: runtime where
  "example_runtime =
     \<lparr>getServerSession = Some \<lparr>user_type = ''admin''\<rparr>,
      decodeURIComponent = Some,
      Number = (\<lambda>v. if v = JStr ''21'' then Some 21 else None),
      toISOString = ''2024-05-01T10:00:00.000Z'',
      Date_now = (\<lambda>k. 1714557600000 + k),
      bcrypt_hash = (\<lambda>v. Some (''hashed:'' @ js_String v)),
      uploadImage = (\<lambda>fileName image folder. Some \<lparr>success = False, url = JUndefined\<rparr>)\<rparr>"

definition acme_row :: "string \<Rightarrow> string \<Rightarrow> row" where
  "acme_row st del =
     [JStr ''company_1'', JStr ''Acme'', JStr ''acme'', JStr ''hashed:secret'', JNull, JStr st,
      JStr del]"

definition example_store :: "row list \<Rightarrow> row list \<Rightarrow> store" where
  "example_store companies table =
     [''companies'' \<mapsto> \<lparr>srows = companies_header # companies, stables = Map.empty\<rparr>,
      ''Acme'' \<mapsto> \<lparr>srows = [[JStr ''Launch'']], stables = [''Launch'' \<mapsto> table]\<rparr>]"

definition titled_header :: row where
  \<comment> \<open>the column order the handlers write: "Name, WhatsApp Number, ID National Number, Email,
      Education, University and College, Age, Gender"\<close>
  "titled_header =
     [JStr ''Name'', JStr ''WhatsApp Number'', JStr ''ID National Number'', JStr ''Email'',
      JStr ''Education'', JStr ''University and College'', JStr ''Age'', JStr ''Gender'',
      JStr ''Registration Date'']"

definition other_email_header :: row where
  "other_email_header =
     [JStr ''Name'', JStr ''WhatsApp Number'', JStr ''ID National Number'', JStr ''E-mail'',
      JStr ''Education'', JStr ''University and College'', JStr ''Age'', JStr ''Gender'',
      JStr ''Registration Date'']"

definition untitled_header :: row where
  "untitled_header =
     [JStr ''Full name'', JStr ''Phone'', JStr ''National ID'', JStr ''E-mail'',
      JStr ''Education'', JStr ''University'', JStr ''Age'', JStr ''Gender'', JStr ''Date'']"

definition person :: "string \<Rightarrow> string \<Rightarrow> string \<Rightarrow> register_body" where
  "person nm em phone =
     \<lparr>companyName = JStr ''Acme'', eventName = JStr ''Launch'', name = JStr nm,
      whatsappNumber = JStr phone, whatsapp = JStr phone, nationalId = JStr ''29801011234567'',
      email = JStr em, education = JStr ''student'', universityCollege = JStr ''Cairo'',
      age = JStr ''21'', gender = JStr ''female''\<rparr>"

definition stored_row :: "register_body \<Rightarrow> string \<Rightarrow> row" where
  "stored_row b date =
     [name b, whatsappNumber b, nationalId b, email b, education b, universityCollege b, age b,
      gender b, JStr date]"

definition sara :: register_body where
  "sara = person ''Sara'' ''sara@example.com'' ''01234567890''"

definition omar :: register_body where
  "omar = person ''Omar'' ''omar@example.com'' ''01098765432''"

definition acme_successor_row :: row where
  \<comment> \<open>a second company of the name Acme, created after the first was soft-deleted, and
      disabled\<close>
  "acme_successor_row =
     [JStr ''company_2'', JStr ''Acme'', JStr ''acme2'', JStr ''hashed:secret2'', JNull,
      JStr ''disabled'', JStr ''false'']"

definition sparse_acme_row :: row where
  \<comment> \<open>Acme's row with an empty image cell, an empty status cell and \<open>TRUE\<close> as its deleted
      cell\<close>
  "sparse_acme_row =
     [JStr ''company_1'', JStr ''Acme'', JStr ''acme'', JStr ''hashed:secret'', JStr '''',
      JStr '''', JStr ''TRUE'']"

definition company_request :: "jsval \<Rightarrow> jsval \<Rightarrow> company_body" where
  \<comment> \<open>a \<^verbatim>\<open>PUT\<close> body for company_1 that carries at most a name and a status\<close>
  "company_request nm st =
     \<lparr>req_id = JStr ''company_1'', req_name = nm, req_username = JUndefined,
      req_password = JUndefined, req_image = JUndefined, req_status = st,
      req_deleted = JUndefined\<rparr>"

section \<open>Proofs: the registration endpoint\<close>

lemmas example_defs = example_runtime_def acme_row_def example_store_def titled_header_def
  other_email_header_def untitled_header_def person_def stored_row_def sara_def omar_def
  companies_header_def company_request_def acme_successor_row_def sparse_acme_row_def

lemmas register_defs = getSheetData_def getTableData_def addToTable_def slice1_def cell_def
  js_or_def event_disabled_def same_person_def same_person_part_001_def fields_missing_def
  fields_missing_part_001_def emailRegex_test_def phoneRegex_test_def plain_def is_space_def
  is_digit_def age_invalid_def has_rows_def company_enabled_def company_not_disabled_def
  passes_checks_def passes_checks_part_001_def json_def ok_def quoted_def Let_def

text \<open>What the handler of \<^verbatim>\<open>register/route.ts\<close> does with a request that reaches the duplicate
  check, and that only such a request is answered with 200.\<close>

lemma register_POST_after_checks:
  assumes "passes_checks rt request st b cn tableData"
  shows "register_POST rt request st =
     (if find (same_person (hd tableData) (email b) (whatsappNumber b)) (slice1 tableData) \<noteq> None
      then (json (Error ''You are already registered for this event'') 400, st)
      else (case addToTable st cn (js_String (eventName b))
                   [name b, whatsappNumber b, nationalId b, email b, education b,
                    universityCollege b, age b, gender b, JStr (toISOString rt)] of
              Inl e \<Rightarrow> (json (Error ''Failed to complete registration'') 500, st)
            | Inr st' \<Rightarrow> (ok (Registration (name b) (email b) (toISOString rt)), st')))"
  using assms
  by (simp add: passes_checks_def register_POST_def has_rows_def company_enabled_def Let_def
        split: sum.splits option.splits)

lemma register_POST_200:
  assumes "status (fst (register_POST rt request st)) = 200"
  shows "\<exists>b cn tableData. passes_checks rt request st b cn tableData \<and>
           find (same_person (hd tableData) (email b) (whatsappNumber b)) (slice1 tableData) = None"
  using assms
  apply (simp add: register_POST_def Let_def json_def ok_def
      split: sum.splits option.splits if_splits)
  apply (simp_all add: passes_checks_def has_rows_def company_enabled_def)
  done

lemma register_POST_part_001_after_checks:
  assumes "passes_checks_part_001 rt request st b cn tableData"
  shows "register_POST_part_001 rt request st =
     (if find (same_person_part_001 (email b) (whatsapp b)) (slice1 tableData) \<noteq> None
      then (json (Error ''You are already registered for this event'') 400, st)
      else (case addToTable st cn (js_String (eventName b))
                   [name b, whatsapp b, nationalId b, email b, education b,
                    universityCollege b, age b, gender b, JStr (toISOString rt)] of
              Inl e \<Rightarrow> (json (Error ''Event not found'') 404, st)
            | Inr st' \<Rightarrow> (ok (Registration (name b) (email b) (toISOString rt)), st')))"
  using assms
  by (simp add: passes_checks_part_001_def register_POST_part_001_def has_rows_def
        company_not_disabled_def Let_def split: sum.splits option.splits)

lemma register_POST_part_001_200:
  assumes "status (fst (register_POST_part_001 rt request st)) = 200"
  shows "\<exists>b cn tableData. passes_checks_part_001 rt request st b cn tableData \<and>
           find (same_person_part_001 (email b) (whatsapp b)) (slice1 tableData) = None"
  using assms
  apply (simp add: register_POST_part_001_def Let_def json_def ok_def
      split: sum.splits option.splits if_splits)
  apply (simp_all add: passes_checks_part_001_def has_rows_def company_not_disabled_def)
  done

text \<open>Appending to a table that was just read succeeds, and changes that table only.\<close>

lemma addToTable_after_read:
  assumes "getTableData st cn ev = Inr t"
  shows "\<exists>st'. addToTable st cn ev r = Inr st' \<and>
           getTableData st' cn ev = Inr (t @ [r]) \<and>
           (\<forall>c e. (c, e) \<noteq> (cn, ev) \<longrightarrow> getTableData st' c e = getTableData st c e) \<and>
           (\<forall>c. getSheetData st' c = getSheetData st c)"
  using assms
  by (auto simp: getTableData_def addToTable_def getSheetData_def split: option.splits)

lemma find_None_iff_no_match: "(find p xs = None) = (\<forall>x \<in> set xs. \<not> p x)"
  by (induction xs) auto

lemma findIndex_None_iff: "(findIndex p xs = None) = (\<forall>x \<in> set xs. \<not> p x)"
  by (induction xs) (auto split: option.splits)

lemma registration_stored:
  assumes "passes_checks rt request st b cn tableData"
    and "find (same_person (hd tableData) (email b) (whatsappNumber b)) (slice1 tableData) = None"
  shows "\<exists>st'. register_POST rt request st =
                 (ok (Registration (name b) (email b) (toISOString rt)), st') \<and>
           getTableData st' cn (js_String (eventName b)) =
             Inr (tableData @ [[name b, whatsappNumber b, nationalId b, email b, education b,
                                universityCollege b, age b, gender b, JStr (toISOString rt)]]) \<and>
           (\<forall>c e. (c, e) \<noteq> (cn, js_String (eventName b)) \<longrightarrow>
                  getTableData st' c e = getTableData st c e) \<and>
           (\<forall>c. getSheetData st' c = getSheetData st c)"
proof -
  let ?r = "[name b, whatsappNumber b, nationalId b, email b, education b,
             universityCollege b, age b, gender b, JStr (toISOString rt)]"
  from assms(1) have read: "getTableData st cn (js_String (eventName b)) = Inr tableData"
    by (simp add: passes_checks_def)
  from addToTable_after_read [OF read, of ?r] obtain st' where
    st': "addToTable st cn (js_String (eventName b)) ?r = Inr st'"
      "getTableData st' cn (js_String (eventName b)) = Inr (tableData @ [?r])"
      "\<forall>c e. (c, e) \<noteq> (cn, js_String (eventName b)) \<longrightarrow>
             getTableData st' c e = getTableData st c e"
      "\<forall>c. getSheetData st' c = getSheetData st c"
    by blast
  have "register_POST rt request st =
          (ok (Registration (name b) (email b) (toISOString rt)), st')"
    using register_POST_after_checks [OF assms(1)] assms(2) st'(1) by simp
  with st'(2,3,4) show ?thesis by blast
qed

lemma registration_stored_part_001:
  assumes "passes_checks_part_001 rt request st b cn tableData"
    and "find (same_person_part_001 (email b) (whatsapp b)) (slice1 tableData) = None"
  shows "\<exists>st'. register_POST_part_001 rt request st =
                 (ok (Registration (name b) (email b) (toISOString rt)), st') \<and>
           getTableData st' cn (js_String (eventName b)) =
             Inr (tableData @ [[name b, whatsapp b, nationalId b, email b, education b,
                                universityCollege b, age b, gender b, JStr (toISOString rt)]]) \<and>
           (\<forall>c e. (c, e) \<noteq> (cn, js_String (eventName b)) \<longrightarrow>
                  getTableData st' c e = getTableData st c e) \<and>
           (\<forall>c. getSheetData st' c = getSheetData st c)"
proof -
  let ?r = "[name b, whatsapp b, nationalId b, email b, education b,
             universityCollege b, age b, gender b, JStr (toISOString rt)]"
  from assms(1) have read: "getTableData st cn (js_String (eventName b)) = Inr tableData"
    by (simp add: passes_checks_part_001_def)
  from addToTable_after_read [OF read, of ?r] obtain st' where
    st': "addToTable st cn (js_String (eventName b)) ?r = Inr st'"
      "getTableData st' cn (js_String (eventName b)) = Inr (tableData @ [?r])"
      "\<forall>c e. (c, e) \<noteq> (cn, js_String (eventName b)) \<longrightarrow>
             getTableData st' c e = getTableData st c e"
      "\<forall>c. getSheetData st' c = getSheetData st c"
    by blast
  have "register_POST_part_001 rt request st =
          (ok (Registration (name b) (email b) (toISOString rt)), st')"
    using register_POST_part_001_after_checks [OF assms(1)] assms(2) st'(1) by simp
  with st'(2,3,4) show ?thesis by blast
qed

text \<open>Two evaluations used below: Omar's request passes every check against a table that
  holds Sara's row, for either handler.\<close>

lemma omar_passes_checks:
  "passes_checks example_runtime (Some omar)
     (example_store [acme_row ''enabled'' ''false''] [titled_header, stored_row sara ''t0''])
     omar ''Acme'' [titled_header, stored_row sara ''t0'']"
  by (simp add: example_defs register_defs)

lemma omar_passes_checks_part_001:
  "passes_checks_part_001 example_runtime (Some omar)
     (example_store [acme_row ''enabled'' ''false''] [titled_header, stored_row sara ''t0''])
     omar ''Acme'' [titled_header, stored_row sara ''t0'']"
  by (simp add: example_defs register_defs)

lemma sara_passes_checks:
  "passes_checks example_runtime (Some sara)
     (example_store [acme_row ''enabled'' ''false''] [titled_header, stored_row sara ''t0''])
     sara ''Acme'' [titled_header, stored_row sara ''t0'']"
  by (simp add: example_defs register_defs)

lemma sara_passes_checks_part_001:
  "passes_checks_part_001 example_runtime (Some sara)
     (example_store [acme_row ''enabled'' ''false''] [titled_header, stored_row sara ''t0''])
     sara ''Acme'' [titled_header, stored_row sara ''t0'']"
  by (simp add: example_defs register_defs)


subsection \<open>C9: an error response leaves the store as it was\<close>

text \<open>
  C9. Whenever the registration endpoint answers with a status other than 200 (validation
  failure, company or event not found, company or event disabled, duplicate, failed write),
  the store it returns is the store it was given: no row was appended to any table. This holds
  for the handler of \<^verbatim>\<open>register/route.ts\<close> and for the older handler.
\<close>

theorem register_error_keeps_store:
  "(status (fst (register_POST rt request st)) \<noteq> 200 \<longrightarrow>
      snd (register_POST rt request st) = st) \<and>
   (status (fst (register_POST_part_001 rt request st)) \<noteq> 200 \<longrightarrow>
      snd (register_POST_part_001 rt request st) = st)"
proof
  show "status (fst (register_POST rt request st)) \<noteq> 200 \<longrightarrow>
          snd (register_POST rt request st) = st"
    by (simp add: register_POST_def json_def ok_def Let_def split: option.split sum.split)
  show "status (fst (register_POST_part_001 rt request st)) \<noteq> 200 \<longrightarrow>
          snd (register_POST_part_001 rt request st) = st"
    by (simp add: register_POST_part_001_def json_def ok_def Let_def
          split: option.split sum.split)
qed

theorem register_error_keeps_store_witness:
  "status (fst (register_POST example_runtime (Some (sara\<lparr>email := JStr ''sara''\<rparr>))
                  (example_store [acme_row ''enabled'' ''false''] [titled_header]))) = 400 \<and>
   snd (register_POST example_runtime (Some (sara\<lparr>email := JStr ''sara''\<rparr>))
          (example_store [acme_row ''enabled'' ''false''] [titled_header])) =
     example_store [acme_row ''enabled'' ''false''] [titled_header] \<and>
   status (fst (register_POST_part_001 example_runtime (Some (sara\<lparr>age := JStr ''12''\<rparr>))
                  (example_store [acme_row ''enabled'' ''false''] [titled_header]))) = 400 \<and>
   snd (register_POST_part_001 example_runtime (Some (sara\<lparr>age := JStr ''12''\<rparr>))
          (example_store [acme_row ''enabled'' ''false''] [titled_header])) =
     example_store [acme_row ''enabled'' ''false''] [titled_header]"
proof -
  let ?st = "example_store [acme_row ''enabled'' ''false''] [titled_header]"
  have a: "status (fst (register_POST example_runtime (Some (sara\<lparr>email := JStr ''sara''\<rparr>)) ?st))
             = 400"
    by (simp add: register_POST_def example_defs register_defs)
  have b: "status (fst (register_POST_part_001 example_runtime
                          (Some (sara\<lparr>age := JStr ''12''\<rparr>)) ?st)) = 400"
    by (simp add: register_POST_part_001_def example_defs register_defs)
  from a b
    register_error_keeps_store [of example_runtime "Some (sara\<lparr>email := JStr ''sara''\<rparr>)" ?st]
    register_error_keeps_store [of example_runtime "Some (sara\<lparr>age := JStr ''12''\<rparr>)" ?st]
  show ?thesis by simp
qed

subsection \<open>C5: a request that passes every check stores exactly one row\<close>

text \<open>
  C5. A registration request that passes the validation, existence, status and duplicate
  checks is answered with the success response that echoes the submitted name and email and
  the timestamp taken from the clock; afterwards the event's table is the old table followed
  by one row, the registration fields with that same timestamp as its last cell; every other
  table and the rows of every sheet read as before. This holds for the handler of
  \<^verbatim>\<open>register/route.ts\<close> and for the older handler.
\<close>

theorem registration_appends_one_row:
  "(passes_checks rt request st b cn tableData \<and>
    find (same_person (hd tableData) (email b) (whatsappNumber b)) (slice1 tableData) = None \<longrightarrow>
    (\<exists>st'. register_POST rt request st =
             (ok (Registration (name b) (email b) (toISOString rt)), st') \<and>
       getTableData st' cn (js_String (eventName b)) =
         Inr (tableData @ [[name b, whatsappNumber b, nationalId b, email b, education b,
                            universityCollege b, age b, gender b, JStr (toISOString rt)]]) \<and>
       (\<forall>c e. (c, e) \<noteq> (cn, js_String (eventName b)) \<longrightarrow>
              getTableData st' c e = getTableData st c e) \<and>
       (\<forall>c. getSheetData st' c = getSheetData st c))) \<and>
   (passes_checks_part_001 rt request st b cn tableData \<and>
    find (same_person_part_001 (email b) (whatsapp b)) (slice1 tableData) = None \<longrightarrow>
    (\<exists>st'. register_POST_part_001 rt request st =
             (ok (Registration (name b) (email b) (toISOString rt)), st') \<and>
       getTableData st' cn (js_String (eventName b)) =
         Inr (tableData @ [[name b, whatsapp b, nationalId b, email b, education b,
                            universityCollege b, age b, gender b, JStr (toISOString rt)]]) \<and>
       (\<forall>c e. (c, e) \<noteq> (cn, js_String (eventName b)) \<longrightarrow>
              getTableData st' c e = getTableData st c e) \<and>
       (\<forall>c. getSheetData st' c = getSheetData st c)))"
  using registration_stored [of rt request st b cn tableData]
    registration_stored_part_001 [of rt request st b cn tableData]
  by blast

theorem registration_appends_one_row_witness:
  "fst (register_POST example_runtime (Some omar)
          (example_store [acme_row ''enabled'' ''false''] [titled_header, stored_row sara ''t0''])) =
     ok (Registration (JStr ''Omar'') (JStr ''omar@example.com'') ''2024-05-01T10:00:00.000Z'') \<and>
   getTableData
     (snd (register_POST example_runtime (Some omar)
             (example_store [acme_row ''enabled'' ''false''] [titled_header, stored_row sara ''t0''])))
     ''Acme'' ''Launch'' =
     Inr [titled_header, stored_row sara ''t0'', stored_row omar ''2024-05-01T10:00:00.000Z''] \<and>
   fst (register_POST_part_001 example_runtime (Some omar)
          (example_store [acme_row ''enabled'' ''false''] [titled_header, stored_row sara ''t0''])) =
     ok (Registration (JStr ''Omar'') (JStr ''omar@example.com'') ''2024-05-01T10:00:00.000Z'') \<and>
   getTableData
     (snd (register_POST_part_001 example_runtime (Some omar)
             (example_store [acme_row ''enabled'' ''false''] [titled_header, stored_row sara ''t0''])))
     ''Acme'' ''Launch'' =
     Inr [titled_header, stored_row sara ''t0'', stored_row omar ''2024-05-01T10:00:00.000Z'']"
proof -
  let ?t = "[titled_header, stored_row sara ''t0'']"
  let ?st = "example_store [acme_row ''enabled'' ''false''] ?t"
  have a: "find (same_person (hd ?t) (email omar) (whatsappNumber omar)) (slice1 ?t) = None"
    by (simp add: example_defs register_defs)
  have b: "find (same_person_part_001 (email omar) (whatsapp omar)) (slice1 ?t) = None"
    by (simp add: example_defs register_defs)
  from registration_appends_one_row [of example_runtime "Some omar" ?st omar "''Acme''" ?t]
    omar_passes_checks omar_passes_checks_part_001 a b
  show ?thesis
    by (auto simp: example_defs)
qed


subsection \<open>C1: duplicates are found in the columns titled Email and WhatsApp Number\<close>

text \<open>
  C1, as amended. A request that reaches the duplicate check of \<^verbatim>\<open>register/route.ts\<close> is
  answered 400 "You are already registered for this event", and nothing is stored, when the
  header row of the event's table has a column titled \<open>Email\<close> in which some stored row holds
  the request's email, or a column titled \<open>WhatsApp Number\<close> in which some stored row holds
  the request's phone. The older handler answers so when some stored row holds the request's
  phone in column 1.
\<close>

theorem duplicate_registration_rejected:
  "(passes_checks rt request st b cn tableData \<and> r \<in> set (slice1 tableData) \<and>
    ((findIndex (\<lambda>h. h = JStr ''Email'') (hd tableData) = Some i \<and> cell r i = email b) \<or>
     (findIndex (\<lambda>h. h = JStr ''WhatsApp Number'') (hd tableData) = Some j \<and>
      cell r j = whatsappNumber b)) \<longrightarrow>
    register_POST rt request st =
      (json (Error ''You are already registered for this event'') 400, st)) \<and>
   (passes_checks_part_001 rt request st b cn tableData \<and> r \<in> set (slice1 tableData) \<and>
    cell r 1 = whatsapp b \<longrightarrow>
    register_POST_part_001 rt request st =
      (json (Error ''You are already registered for this event'') 400, st))"
proof (intro conjI impI)
  assume h: "passes_checks rt request st b cn tableData \<and> r \<in> set (slice1 tableData) \<and>
    ((findIndex (\<lambda>h. h = JStr ''Email'') (hd tableData) = Some i \<and> cell r i = email b) \<or>
     (findIndex (\<lambda>h. h = JStr ''WhatsApp Number'') (hd tableData) = Some j \<and>
      cell r j = whatsappNumber b))"
  then have "same_person (hd tableData) (email b) (whatsappNumber b) r"
    by (auto simp: same_person_def)
  with h have found:
    "find (same_person (hd tableData) (email b) (whatsappNumber b)) (slice1 tableData) \<noteq> None"
    by (auto simp: find_None_iff_no_match)
  from h have p: "passes_checks rt request st b cn tableData"
    by simp
  show "register_POST rt request st =
      (json (Error ''You are already registered for this event'') 400, st)"
    unfolding register_POST_after_checks [OF p] using found by simp
next
  assume h: "passes_checks_part_001 rt request st b cn tableData \<and>
    r \<in> set (slice1 tableData) \<and> cell r 1 = whatsapp b"
  then have "same_person_part_001 (email b) (whatsapp b) r"
    by (simp add: same_person_part_001_def)
  with h have found:
    "find (same_person_part_001 (email b) (whatsapp b)) (slice1 tableData) \<noteq> None"
    by (auto simp: find_None_iff_no_match)
  from h have p: "passes_checks_part_001 rt request st b cn tableData"
    by simp
  show "register_POST_part_001 rt request st =
      (json (Error ''You are already registered for this event'') 400, st)"
    unfolding register_POST_part_001_after_checks [OF p] using found by simp
qed

theorem duplicate_registration_rejected_witness:
  "register_POST example_runtime (Some sara)
     (example_store [acme_row ''enabled'' ''false''] [titled_header, stored_row sara ''t0'']) =
     (json (Error ''You are already registered for this event'') 400,
      example_store [acme_row ''enabled'' ''false''] [titled_header, stored_row sara ''t0'']) \<and>
   register_POST_part_001 example_runtime (Some sara)
     (example_store [acme_row ''enabled'' ''false''] [titled_header, stored_row sara ''t0'']) =
     (json (Error ''You are already registered for this event'') 400,
      example_store [acme_row ''enabled'' ''false''] [titled_header, stored_row sara ''t0''])"
proof -
  let ?t = "[titled_header, stored_row sara ''t0'']"
  let ?st = "example_store [acme_row ''enabled'' ''false''] ?t"
  have a: "stored_row sara ''t0'' \<in> set (slice1 ?t)"
    by (simp add: slice1_def)
  have b: "findIndex (\<lambda>h. h = JStr ''Email'') (hd ?t) = Some 3 \<and>
           cell (stored_row sara ''t0'') 3 = email sara"
    by (simp add: example_defs cell_def)
  have c: "cell (stored_row sara ''t0'') 1 = whatsapp sara"
    by (simp add: example_defs cell_def)
  from duplicate_registration_rejected
         [of example_runtime "Some sara" ?st sara "''Acme''" ?t "stored_row sara ''t0''" 3 0]
    sara_passes_checks sara_passes_checks_part_001 a b c
  show ?thesis by blast
qed

text \<open>
  The claim as stated fails where the email column has another title: the stored row holds
  the request's email in the column the handler writes it to, and the request is accepted.
\<close>

theorem duplicate_registration_counterexample:
  "getTableData
     (example_store [acme_row ''enabled'' ''false''] [other_email_header, stored_row sara ''t0''])
     ''Acme'' ''Launch'' = Inr [other_email_header, stored_row sara ''t0''] \<and>
   cell (stored_row sara ''t0'') 3 =
     email (person ''Sara'' ''sara@example.com'' ''01555555555'') \<and>
   fst (register_POST example_runtime (Some (person ''Sara'' ''sara@example.com'' ''01555555555''))
          (example_store [acme_row ''enabled'' ''false'']
             [other_email_header, stored_row sara ''t0''])) =
     ok (Registration (JStr ''Sara'') (JStr ''sara@example.com'') ''2024-05-01T10:00:00.000Z'') \<and>
   getTableData
     (snd (register_POST example_runtime
             (Some (person ''Sara'' ''sara@example.com'' ''01555555555''))
             (example_store [acme_row ''enabled'' ''false'']
                [other_email_header, stored_row sara ''t0''])))
     ''Acme'' ''Launch'' =
     Inr [other_email_header, stored_row sara ''t0'',
          stored_row (person ''Sara'' ''sara@example.com'' ''01555555555'')
            ''2024-05-01T10:00:00.000Z'']"
  by (simp add: register_POST_def example_defs register_defs)

text \<open>
  The older handler compares the request's email with column 2 of a stored row, while it
  writes the email to column 3 (column 2 holds the national id): a stored row with the
  request's email and another phone is not found, whatever the header row.
\<close>

lemma part_001_same_email_accepted:
  "cell (stored_row sara ''t0'') 3 = email (person ''Sara'' ''sara@example.com'' ''01555555555'') \<and>
   fst (register_POST_part_001 example_runtime
          (Some (person ''Sara'' ''sara@example.com'' ''01555555555''))
          (example_store [acme_row ''enabled'' ''false''] [titled_header, stored_row sara ''t0''])) =
     ok (Registration (JStr ''Sara'') (JStr ''sara@example.com'') ''2024-05-01T10:00:00.000Z'')"
  by (simp add: register_POST_part_001_def example_defs register_defs)

subsection \<open>C10: without the two column titles no duplicate is found\<close>

text \<open>
  C10. Where the header row of the event's table has neither a column titled \<open>Email\<close> nor one
  titled \<open>WhatsApp Number\<close>, the duplicate check of \<^verbatim>\<open>register/route.ts\<close> matches no row,
  whatever the rows hold: a request that reaches the check is accepted and its row appended,
  also when a stored row has the same email and phone.
\<close>

theorem untitled_columns_accept_duplicates:
  assumes "passes_checks rt request st b cn tableData"
    and "JStr ''Email'' \<notin> set (hd tableData)"
    and "JStr ''WhatsApp Number'' \<notin> set (hd tableData)"
  shows "(\<forall>r. \<not> same_person (hd tableData) (email b) (whatsappNumber b) r) \<and>
    (\<exists>st'. register_POST rt request st =
             (ok (Registration (name b) (email b) (toISOString rt)), st') \<and>
       getTableData st' cn (js_String (eventName b)) =
         Inr (tableData @ [[name b, whatsappNumber b, nationalId b, email b, education b,
                            universityCollege b, age b, gender b, JStr (toISOString rt)]]))"
proof -
  have e: "findIndex (\<lambda>h. h = JStr ''Email'') (hd tableData) = None"
    using assms(2) by (auto simp: findIndex_None_iff)
  have w: "findIndex (\<lambda>h. h = JStr ''WhatsApp Number'') (hd tableData) = None"
    using assms(3) by (auto simp: findIndex_None_iff)
  have none: "\<forall>r. \<not> same_person (hd tableData) (email b) (whatsappNumber b) r"
    by (simp add: same_person_def e w)
  then have "find (same_person (hd tableData) (email b) (whatsappNumber b)) (slice1 tableData)
               = None"
    by (simp add: find_None_iff_no_match)
  from registration_stored [OF assms(1) this] none show ?thesis
    by blast
qed

theorem untitled_columns_accept_duplicates_witness:
  "stored_row sara ''t0'' \<in> set (slice1 [untitled_header, stored_row sara ''t0'']) \<and>
   cell (stored_row sara ''t0'') 3 = email sara \<and>
   cell (stored_row sara ''t0'') 1 = whatsappNumber sara \<and>
   fst (register_POST example_runtime (Some sara)
          (example_store [acme_row ''enabled'' ''false''] [untitled_header, stored_row sara ''t0''])) =
     ok (Registration (JStr ''Sara'') (JStr ''sara@example.com'') ''2024-05-01T10:00:00.000Z'') \<and>
   getTableData
     (snd (register_POST example_runtime (Some sara)
             (example_store [acme_row ''enabled'' ''false'']
                [untitled_header, stored_row sara ''t0''])))
     ''Acme'' ''Launch'' =
     Inr [untitled_header, stored_row sara ''t0'', stored_row sara ''2024-05-01T10:00:00.000Z'']"
proof -
  let ?t = "[untitled_header, stored_row sara ''t0'']"
  let ?st = "example_store [acme_row ''enabled'' ''false''] ?t"
  have p: "passes_checks example_runtime (Some sara) ?st sara ''Acme'' ?t"
    by (simp add: example_defs register_defs)
  have e: "JStr ''Email'' \<notin> set (hd ?t)" "JStr ''WhatsApp Number'' \<notin> set (hd ?t)"
    by (simp_all add: example_defs)
  have s: "stored_row sara ''t0'' \<in> set (slice1 ?t)"
    "cell (stored_row sara ''t0'') 3 = email sara"
    "cell (stored_row sara ''t0'') 1 = whatsappNumber sara"
    by (simp_all add: example_defs slice1_def cell_def)
  from untitled_columns_accept_duplicates [OF p e] s show ?thesis
    by (auto simp: example_defs)
qed

subsection \<open>C4: a disabled company\<close>





section \<open>Proofs: the companies endpoint\<close>

lemmas companies_defs = getSheetData_def appendToSheet_def createSheet_def updateRow_def
  renameSheet_def slice1_def cell_def js_or_def js_array_set_def unauthorized_def
  company_of_row_def shown_companies_def ensure_companies_sheet_def username_taken_def
  currentDeleted_def new_deleted_def imageUrl_def hashedPassword_def updatedCompany_def
  updated_response_def json_def ok_def Let_def

lemma list_ex_iff_member: "list_ex p xs = (\<exists>x \<in> set xs. p x)"
  by (induction xs) auto

lemma ensure_companies_sheet_present:
  "getSheetData st ''companies'' = Inr d \<Longrightarrow> ensure_companies_sheet st = Inr st"
  by (simp add: ensure_companies_sheet_def)

subsection \<open>C3: a username in use is refused, whoever holds it\<close>

text \<open>
  C3, as amended. A create request of an admin that carries name, username and password and
  whose username is the username cell of some row of the companies sheet is answered 400
  "Username already exists", and the store stays as it was. The check reads every row: the
  deleted flag of the row plays no part, so a username held by a deleted company is refused
  as well.
\<close>

theorem username_in_use_rejected:
  assumes "\<not> unauthorized rt"
    and "request = Some b"
    and "truthy (req_name b)" and "truthy (req_username b)" and "truthy (req_password b)"
    and "getSheetData st ''companies'' = Inr existingData"
    and "row \<in> set (slice1 existingData)"
    and "cell row 2 = req_username b"
  shows "companies_POST rt request st = (json (Error ''Username already exists'') 400, st)"
proof -
  have "list_ex (\<lambda>row. cell row 2 = req_username b) (slice1 existingData)"
    using assms(7,8) by (auto simp: list_ex_iff_member)
  then show ?thesis
    using assms(1-6) by (simp add: companies_POST_def ensure_companies_sheet_present)
qed

theorem username_in_use_rejected_witness:
  "companies_POST example_runtime
     (Some \<lparr>req_id = JUndefined, req_name = JStr ''Acme Two'', req_username = JStr ''acme'',
            req_password = JStr ''pw'', req_image = JUndefined, req_status = JUndefined,
            req_deleted = JUndefined\<rparr>)
     (example_store [acme_row ''enabled'' ''false''] [titled_header]) =
     (json (Error ''Username already exists'') 400,
      example_store [acme_row ''enabled'' ''false''] [titled_header])"
proof -
  let ?st = "example_store [acme_row ''enabled'' ''false''] [titled_header]"
  let ?b = "\<lparr>req_id = JUndefined, req_name = JStr ''Acme Two'', req_username = JStr ''acme'',
            req_password = JStr ''pw'', req_image = JUndefined, req_status = JUndefined,
            req_deleted = JUndefined\<rparr>"
  have a: "\<not> unauthorized example_runtime" "truthy (req_name ?b)" "truthy (req_username ?b)"
    "truthy (req_password ?b)"
    "getSheetData ?st ''companies'' = Inr [companies_header, acme_row ''enabled'' ''false'']"
    "acme_row ''enabled'' ''false'' \<in> set (slice1 [companies_header, acme_row ''enabled'' ''false''])"
    "cell (acme_row ''enabled'' ''false'') 2 = req_username ?b"
    by (simp_all add: example_defs companies_defs)
  from username_in_use_rejected [OF a(1) refl a(2-7)] show ?thesis .
qed

text \<open>The claim as stated limits the uniqueness to the companies that are not deleted; the
  only holder of the username here is a deleted company, and the request is refused.\<close>

theorem username_of_deleted_company_counterexample:
  "cell (acme_row ''enabled'' ''true'') 6 = JStr ''true'' \<and>
   c_deleted (company_of_row (acme_row ''enabled'' ''true'')) \<and>
   getSheetData (example_store [acme_row ''enabled'' ''true''] [titled_header]) ''companies'' =
     Inr [companies_header, acme_row ''enabled'' ''true''] \<and>
   companies_POST example_runtime
     (Some \<lparr>req_id = JUndefined, req_name = JStr ''Acme Two'', req_username = JStr ''acme'',
            req_password = JStr ''pw'', req_image = JUndefined, req_status = JUndefined,
            req_deleted = JUndefined\<rparr>)
     (example_store [acme_row ''enabled'' ''true''] [titled_header]) =
     (json (Error ''Username already exists'') 400,
      example_store [acme_row ''enabled'' ''true''] [titled_header])"
  by (simp add: companies_POST_def example_defs companies_defs)

subsection \<open>C8: a failed image upload does not fail the creation\<close>

text \<open>
  C8. A create request with an image whose upload returns an unsuccessful result is treated
  as a request without image: where the request is otherwise in order (admin session, name,
  username and password present, username not in use, the password hashes, no sheet of the
  company's name exists yet), the row is appended to the companies sheet with \<open>null\<close> as its
  image cell and the success response, with image \<open>null\<close>, is returned.
\<close>

theorem failed_upload_leaves_image_null:
  assumes "\<not> unauthorized rt"
    and "request = Some b"
    and "truthy (req_name b)" and "truthy (req_username b)" and "truthy (req_password b)"
    and "truthy (req_image b)"
    and "getSheetData st ''companies'' = Inr existingData"
    and "\<not> list_ex (\<lambda>row. cell row 2 = req_username b) (slice1 existingData)"
    and "bcrypt_hash rt (req_password b) = Some h"
    and "uploadImage rt
           (''company_'' @ (''company_'' @ show_nat (Date_now rt 0)) @ ''_'' @
            show_nat (Date_now rt 1) @ ''.jpg'')
           (req_image b) ''companies'' = Some uploadResult"
    and "\<not> success uploadResult"
    and "st (js_String (req_name b)) = None"
  shows "\<exists>st'. companies_POST rt request st =
           (ok (Company \<lparr>c_id = JStr (''company_'' @ show_nat (Date_now rt 0)),
                         c_name = req_name b, c_username = req_username b, c_image = JNull,
                         c_status = JStr ''enabled'', c_deleted = False\<rparr>), st') \<and>
         getSheetData st' ''companies'' =
           Inr (existingData @
                [[JStr (''company_'' @ show_nat (Date_now rt 0)), req_name b, req_username b,
                  JStr h, JNull, JStr ''enabled'', JStr ''false'']]) \<and>
         getSheetData st' (js_String (req_name b)) = Inr [] \<and>
         companies_POST rt request st = companies_POST rt (Some (b\<lparr>req_image := JUndefined\<rparr>)) st"
proof -
  from assms(7) obtain sh where sh: "st ''companies'' = Some sh" "srows sh = existingData"
    by (auto simp: getSheetData_def split: option.splits)
  with assms(12) have ne: "js_String (req_name b) \<noteq> ''companies''"
    by auto
  show ?thesis
    using assms sh ne
    by (simp add: companies_POST_def ensure_companies_sheet_present appendToSheet_def
          createSheet_def getSheetData_def imageUrl_def Let_def)
qed

theorem failed_upload_leaves_image_null_witness:
  "fst (companies_POST example_runtime
          (Some \<lparr>req_id = JUndefined, req_name = JStr ''Bolt'', req_username = JStr ''bolt'',
                 req_password = JStr ''pw'', req_image = JStr ''data:image/jpeg;base64,AAAA'',
                 req_status = JUndefined, req_deleted = JUndefined\<rparr>)
          (example_store [acme_row ''enabled'' ''false''] [titled_header])) =
     ok (Company \<lparr>c_id = JStr (''company_'' @ show_nat 1714557600000), c_name = JStr ''Bolt'',
                  c_username = JStr ''bolt'', c_image = JNull, c_status = JStr ''enabled'',
                  c_deleted = False\<rparr>) \<and>
   getSheetData
     (snd (companies_POST example_runtime
             (Some \<lparr>req_id = JUndefined, req_name = JStr ''Bolt'', req_username = JStr ''bolt'',
                    req_password = JStr ''pw'', req_image = JStr ''data:image/jpeg;base64,AAAA'',
                    req_status = JUndefined, req_deleted = JUndefined\<rparr>)
             (example_store [acme_row ''enabled'' ''false''] [titled_header])))
     ''companies'' =
     Inr [companies_header, acme_row ''enabled'' ''false'',
          [JStr (''company_'' @ show_nat 1714557600000), JStr ''Bolt'', JStr ''bolt'',
           JStr ''hashed:pw'', JNull, JStr ''enabled'', JStr ''false'']]"
proof -
  let ?st = "example_store [acme_row ''enabled'' ''false''] [titled_header]"
  let ?b = "\<lparr>req_id = JUndefined, req_name = JStr ''Bolt'', req_username = JStr ''bolt'',
             req_password = JStr ''pw'', req_image = JStr ''data:image/jpeg;base64,AAAA'',
             req_status = JUndefined, req_deleted = JUndefined\<rparr>"
  have a: "\<not> unauthorized example_runtime" "truthy (req_name ?b)" "truthy (req_username ?b)"
    "truthy (req_password ?b)" "truthy (req_image ?b)"
    "getSheetData ?st ''companies'' = Inr [companies_header, acme_row ''enabled'' ''false'']"
    "\<not> list_ex (\<lambda>row. cell row 2 = req_username ?b)
         (slice1 [companies_header, acme_row ''enabled'' ''false''])"
    "bcrypt_hash example_runtime (req_password ?b) = Some ''hashed:pw''"
    "uploadImage example_runtime
       (''company_'' @ (''company_'' @ show_nat (Date_now example_runtime 0)) @ ''_'' @
        show_nat (Date_now example_runtime 1) @ ''.jpg'')
       (req_image ?b) ''companies'' = Some \<lparr>success = False, url = JUndefined\<rparr>"
    "\<not> success \<lparr>success = False, url = JUndefined\<rparr>"
    "?st (js_String (req_name ?b)) = None"
    by (simp_all add: example_defs companies_defs)
  have d: "Date_now example_runtime 0 = 1714557600000"
    by (simp add: example_runtime_def)
  from failed_upload_leaves_image_null [OF a(1) refl a(2-11)] show ?thesis
    by (auto simp: d)
qed


subsection \<open>Facts about rows and lists\<close>

lemma findIndex_Some:
  "findIndex p xs = Some i \<Longrightarrow> i < length xs \<and> p (xs ! i)"
proof (induction xs arbitrary: i)
  case Nil
  then show ?case by simp
next
  case (Cons x xs)
  then show ?case
    by (cases i) (auto split: if_splits option.splits)
qed

lemma cell_js_array_set:
  "cell (js_array_set r i v) k = (if k = i then v else cell r k)"
  by (auto simp: cell_def js_array_set_def nth_append)

lemma company_of_row_marked_deleted:
  "company_of_row (js_array_set r 6 (JStr ''true'')) = (company_of_row r)\<lparr>c_deleted := True\<rparr>"
  by (simp add: company_of_row_def cell_js_array_set)

lemma slice1_update: "slice1 (xs[Suc i := x]) = (slice1 xs)[i := x]"
  by (simp add: slice1_def drop_update_swap)

lemma slice1_length: "i < length (slice1 xs) \<Longrightarrow> Suc i < length xs"
  by (simp add: slice1_def)

lemma shown_companies_skips_deleted:
  assumes "i < length cs" and "c_deleted c"
  shows "shown_companies False (cs[i := c]) =
           shown_companies False (take i cs) @ shown_companies False (drop (Suc i) cs)"
  using assms by (simp add: shown_companies_def upd_conv_take_nth_drop)

subsection \<open>C2: soft-deleting a company\<close>

text \<open>
  C2, as amended. Let a company be the first row of the companies sheet with the given id, let
  its backing sheet exist and no sheet of the name \<open>{name}-deleted\<close> exist. Then the
  \<^verbatim>\<open>DELETE\<close> of an admin succeeds, writes \<open>"true"\<close> to the deleted cell of that row and to no
  other cell of the sheet, and moves the backing sheet to the name \<open>{name}-deleted\<close>. Afterwards
  \<^verbatim>\<open>GET\<close> still returns the company, at the same position and with \<open>deleted = true\<close>,
  all else as before; the dashboard's default list, which keeps the companies whose deleted
  flag is false, leaves it out.
\<close>

theorem soft_delete_marks_and_renames:
  assumes "\<not> unauthorized rt"
    and "ident \<noteq> []"
    and "getSheetData st ''companies'' = Inr data"
    and "findIndex (\<lambda>row. cell row 0 = JStr ident) (slice1 data) = Some i"
    and "nm = js_String (cell (slice1 data ! i) 1)"
    and "nm \<noteq> ''companies''"
    and "st nm = Some sh"
    and "st (nm @ ''-deleted'') = None"
  shows "\<exists>st'. companies_DELETE rt (Some ident) st =
                 (ok (Message (''Company '' @ nm @ '' marked as deleted successfully'')), st') \<and>
           getSheetData st' ''companies'' =
             Inr (data[Suc i := js_array_set (slice1 data ! i) 6 (JStr ''true'')]) \<and>
           st' nm = None \<and> st' (nm @ ''-deleted'') = Some sh \<and>
           companies_GET rt st' =
             ok (Companies ((map company_of_row (slice1 data))
                              [i := (company_of_row (slice1 data ! i))\<lparr>c_deleted := True\<rparr>])) \<and>
           shown_companies False
             ((map company_of_row (slice1 data))
                [i := (company_of_row (slice1 data ! i))\<lparr>c_deleted := True\<rparr>]) =
             shown_companies False (take i (map company_of_row (slice1 data))) @
             shown_companies False (drop (Suc i) (map company_of_row (slice1 data)))"
proof -
  from assms(3) obtain csh where csh: "st ''companies'' = Some csh" "srows csh = data"
    by (auto simp: getSheetData_def split: option.splits)
  from findIndex_Some [OF assms(4)] have i: "i < length (slice1 data)"
    by simp
  then have si: "Suc i < length data"
    by (rule slice1_length)
  from assms(8) csh(1) have nd: "nm @ ''-deleted'' \<noteq> ''companies''"
    by auto
  let ?row = "js_array_set (slice1 data ! i) 6 (JStr ''true'')"
  let ?st1 = "st(''companies'' \<mapsto> csh\<lparr>srows := data[Suc i := ?row]\<rparr>)"
  let ?st2 = "(?st1(nm := None))(nm @ ''-deleted'' \<mapsto> sh)"
  have u: "updateRow st ''companies'' (Suc i) ?row = Inr ?st1"
    using csh si by (simp add: updateRow_def)
  have r: "renameSheet ?st1 nm (nm @ ''-deleted'') = Inr ?st2"
    using assms(6,7,8) nd by (simp add: renameSheet_def)
  have nm: "js_String (cell (slice1 data ! i) (Suc 0)) = nm"
    using assms(5) by simp
  have del: "companies_DELETE rt (Some ident) st =
               (ok (Message (''Company '' @ nm @ '' marked as deleted successfully'')), ?st2)"
    using assms(1,2,3,4) u r
    by (simp add: companies_DELETE_def Let_def nm)
  have g: "getSheetData ?st2 ''companies'' = Inr (data[Suc i := ?row])"
    using assms(6) nd by (simp add: getSheetData_def)
  have get: "companies_GET rt ?st2 =
               ok (Companies ((map company_of_row (slice1 data))
                      [i := (company_of_row (slice1 data ! i))\<lparr>c_deleted := True\<rparr>]))"
    using assms(1) g
    by (simp add: companies_GET_def slice1_update map_update company_of_row_marked_deleted)
  have shown: "shown_companies False
             ((map company_of_row (slice1 data))
                [i := (company_of_row (slice1 data ! i))\<lparr>c_deleted := True\<rparr>]) =
             shown_companies False (take i (map company_of_row (slice1 data))) @
             shown_companies False (drop (Suc i) (map company_of_row (slice1 data)))"
    using i by (intro shown_companies_skips_deleted) simp_all
  have "?st2 nm = None" "?st2 (nm @ ''-deleted'') = Some sh"
    by simp_all
  with del g get shown show ?thesis
    by blast
qed

theorem soft_delete_marks_and_renames_witness:
  "fst (companies_DELETE example_runtime (Some ''company_1'')
          (example_store [acme_row ''enabled'' ''false''] [titled_header])) =
     ok (Message ''Company Acme marked as deleted successfully'') \<and>
   getSheetData
     (snd (companies_DELETE example_runtime (Some ''company_1'')
             (example_store [acme_row ''enabled'' ''false''] [titled_header])))
     ''companies'' = Inr [companies_header, acme_row ''enabled'' ''true''] \<and>
   getSheetData
     (snd (companies_DELETE example_runtime (Some ''company_1'')
             (example_store [acme_row ''enabled'' ''false''] [titled_header])))
     ''Acme'' = Inl SheetsError \<and>
   getTableData
     (snd (companies_DELETE example_runtime (Some ''company_1'')
             (example_store [acme_row ''enabled'' ''false''] [titled_header])))
     ''Acme-deleted'' ''Launch'' = Inr [titled_header] \<and>
   shown_companies False
     [(company_of_row (acme_row ''enabled'' ''false''))\<lparr>c_deleted := True\<rparr>] = []"
proof -
  let ?st = "example_store [acme_row ''enabled'' ''false''] [titled_header]"
  let ?data = "[companies_header, acme_row ''enabled'' ''false'']"
  let ?sh = "\<lparr>srows = [[JStr ''Launch'']], stables = [''Launch'' \<mapsto> [titled_header]]\<rparr>"
  have a: "\<not> unauthorized example_runtime" "''company_1'' \<noteq> []"
    "getSheetData ?st ''companies'' = Inr ?data"
    "findIndex (\<lambda>row. cell row 0 = JStr ''company_1'') (slice1 ?data) = Some 0"
    "''Acme'' = js_String (cell (slice1 ?data ! 0) 1)"
    "''Acme'' \<noteq> ''companies''"
    "?st ''Acme'' = Some ?sh"
    "?st (''Acme'' @ ''-deleted'') = None"
    by (simp_all add: example_defs companies_defs)
  from soft_delete_marks_and_renames [OF a] obtain st' where
    "companies_DELETE example_runtime (Some ''company_1'') ?st =
       (ok (Message (''Company '' @ ''Acme'' @ '' marked as deleted successfully'')), st')"
    "getSheetData st' ''companies'' =
       Inr (?data[Suc 0 := js_array_set (slice1 ?data ! 0) 6 (JStr ''true'')])"
    "st' ''Acme'' = None" "st' (''Acme'' @ ''-deleted'') = Some ?sh"
    "shown_companies False
       ((map company_of_row (slice1 ?data))
          [0 := (company_of_row (slice1 ?data ! 0))\<lparr>c_deleted := True\<rparr>]) =
     shown_companies False (take 0 (map company_of_row (slice1 ?data))) @
     shown_companies False (drop (Suc 0) (map company_of_row (slice1 ?data)))"
    by blast
  then show ?thesis
    by (simp add: getSheetData_def getTableData_def shown_companies_def slice1_def
          js_array_set_def acme_row_def)
qed

text \<open>The claim as stated has the deleted company absent from what \<^verbatim>\<open>GET\<close> returns; it is
  returned, marked as deleted.\<close>

theorem soft_delete_listing_counterexample:
  "companies_GET example_runtime
     (snd (companies_DELETE example_runtime (Some ''company_1'')
             (example_store [acme_row ''enabled'' ''false''] [titled_header]))) =
     ok (Companies [\<lparr>c_id = JStr ''company_1'', c_name = JStr ''Acme'',
                      c_username = JStr ''acme'', c_image = JNull, c_status = JStr ''enabled'',
                      c_deleted = True\<rparr>])"
  by (simp add: companies_GET_def companies_DELETE_def example_defs companies_defs)


subsection \<open>What an update writes\<close>





subsection \<open>C6: what an update keeps of the stored row\<close>




subsection \<open>C7: the sheet is renamed exactly when the name changes\<close>




end
